theory Spec2Isabelle
  imports Complex_Main "HOL-Library.Sublist"
begin

section \<open>Python values, objects and exceptions\<close>

text \<open>
  An exception is an instance of a subclass of \<open>Exception\<close>, the class both handlers of
  \<open>main\<close> and the handler of \<open>initialize_chatbot\<close> name. It carries its class name and
  the text \<open>str(e)\<close> gives. Process-control signals that are not subclasses of
  \<open>Exception\<close> (KeyboardInterrupt, SystemExit) are outside the model.
\<close>

datatype py_exception = PyException (exc_class: string) (exc_str: string)

text \<open>The values an attribute \<open>response\<close> holds: \<open>Optional[str]\<close>.\<close>

datatype py_value = PyNone | PyStr string

fun py_str :: "py_value \<Rightarrow> string" where
  "py_str PyNone = ''None''"
| "py_str (PyStr s) = s"

text \<open>An object is its class name and its attributes.\<close>

record py_object =
  class_name :: string
  attrs :: "string \<rightharpoonup> py_value"

definition quote :: "string \<Rightarrow> string" where
  "quote s = [CHR 0x27] @ s @ [CHR 0x27]"

definition getattr :: "py_object \<Rightarrow> string \<Rightarrow> py_exception + py_value" where
  "getattr obj name =
     (case attrs obj name of
        None \<Rightarrow> Inl (PyException ''AttributeError''
                 (quote (class_name obj) @ '' object has no attribute '' @ quote name))
      | Some v \<Rightarrow> Inr v)"

text \<open>\<open>os.environ[key]\<close>: a missing key raises KeyError, whose text is the quoted key.\<close>

definition environ_get :: "(string \<rightharpoonup> string) \<Rightarrow> string \<Rightarrow> py_exception + string" where
  "environ_get env key =
     (case env key of
        None \<Rightarrow> Inl (PyException ''KeyError'' (quote key))
      | Some v \<Rightarrow> Inr v)"

text \<open>
  \<open>load_dotenv()\<close> adds the variables of the .env file to the process environment and
  leaves the variables already set as they are.
\<close>

definition load_dotenv :: "(string \<times> string) list \<Rightarrow> (string \<rightharpoonup> string) \<Rightarrow> (string \<rightharpoonup> string)" where
  "load_dotenv dotenv env = map_of dotenv ++ env"

section \<open>Handles of the remote services\<close>

datatype llm_client = Gemini (api_key: string) (model: string)

datatype embed_client = GeminiEmbedding (model_name: string)

datatype pinecone_client = Pinecone string

datatype pinecone_index = PineconeIndex pinecone_client string

datatype vector_store = PineconeVectorStore pinecone_index

datatype vector_store_index = VectorStoreIndex vector_store

datatype prompt_type = QUESTION_ANSWER

datatype prompt_template = PromptTemplate (template: string) (ptype: prompt_type)

record query_engine =
  engine_index :: vector_store_index
  text_qa_template :: prompt_template
  similarity_top_k :: nat

section \<open>Session state, effects and the outside world\<close>

record chat_message =
  role :: string
  content :: string

text \<open>
  \<open>st.session_state\<close> with its two keys, and the global \<open>Settings\<close> of the library that
  \<open>initialize_chatbot\<close> assigns. The key \<open>chat_history\<close> is set to the empty list by
  the module's top level (lines 20-21) when a session starts and is never deleted; the key
  \<open>query_engine\<close> is absent until \<open>main\<close> stores an engine.
\<close>

record app_state =
  chat_history :: "chat_message list"
  session_engine :: "query_engine option"
  settings_llm :: "llm_client option"
  settings_embed_model :: "embed_client option"

definition fresh_session :: app_state where
  "fresh_session =
     \<lparr>chat_history = [], session_engine = None,
      settings_llm = None, settings_embed_model = None\<rparr>"

text \<open>The requests a query sends to the remote services.\<close>

datatype remote_call =
    EmbedCall string
  | SearchCall "real list" nat
  | LLMCall string

text \<open>What a run of the script does that is visible from outside, in order.\<close>

datatype effect =
    SetPageConfig string string string
  | Title string
  | Spinner string
  | Success string
  | ChatUserWrite string
  | ChatAssistantMarkdown string
  | StError string
  | StInfo string
  | StWarning string
  | LogError string
  | EngineQuery query_engine string
  | Remote remote_call

text \<open>
  The world of one run of the script: the environment, which constructor of a client
  fails (\<open>None\<close>: it succeeds), and what the library's \<open>query\<close> method does on an engine
  and a query: the remote calls it makes and the response object it returns or the
  exception it raises. Each run has its own world, so that a remote service may answer
  the same query differently, or fail, from one run to the next.
\<close>

record world =
  os_environ :: "string \<rightharpoonup> string"
  dotenv_file :: "(string \<times> string) list"
  gemini_fails :: "string \<Rightarrow> string \<Rightarrow> py_exception option"
  gemini_embedding_fails :: "string \<Rightarrow> py_exception option"
  pinecone_fails :: "string \<Rightarrow> py_exception option"
  pinecone_index_fails :: "pinecone_client \<Rightarrow> string \<Rightarrow> py_exception option"
  vector_store_fails :: "pinecone_index \<Rightarrow> py_exception option"
  from_vector_store_fails :: "vector_store \<Rightarrow> py_exception option"
  query_method :: "query_engine \<Rightarrow> string \<Rightarrow> remote_call list \<times> (py_exception + py_object)"

definition construct :: "py_exception option \<Rightarrow> 'a \<Rightarrow> py_exception + 'a" where
  "construct failure obj = (case failure of Some e \<Rightarrow> Inl e | None \<Rightarrow> Inr obj)"

section \<open>The functions of UserApp.py\<close>

text \<open>Lines 34-38 of \<open>initialize_chatbot\<close>: the vector store and the index over it.\<close>

definition connect_index :: "world \<Rightarrow> (string \<rightharpoonup> string) \<Rightarrow> py_exception + vector_store_index" where
  "connect_index w env =
     (case environ_get env ''PINECONE_API_KEY'' of
        Inl e \<Rightarrow> Inl e
      | Inr key \<Rightarrow>
     (case construct (pinecone_fails w key) (Pinecone key) of
        Inl e \<Rightarrow> Inl e
      | Inr client \<Rightarrow>
     (case construct (pinecone_index_fails w client ''constitution'')
             (PineconeIndex client ''constitution'') of
        Inl e \<Rightarrow> Inl e
      | Inr pindex \<Rightarrow>
     (case construct (vector_store_fails w pindex) (PineconeVectorStore pindex) of
        Inl e \<Rightarrow> Inl e
      | Inr store \<Rightarrow>
        construct (from_vector_store_fails w store) (VectorStoreIndex store)))))"

text \<open>The body of the \<open>try\<close> of \<open>initialize_chatbot\<close> (lines 26-40).\<close>

definition initialize_chatbot_body :: "world \<Rightarrow> app_state \<Rightarrow> app_state \<times> (py_exception + vector_store_index)" where
  "initialize_chatbot_body w s =
     (let env = load_dotenv (dotenv_file w) (os_environ w) in
      case environ_get env ''GOOGLE_API_KEY'' of
        Inl e \<Rightarrow> (s, Inl e)
      | Inr key \<Rightarrow>
     (case construct (gemini_fails w key ''models/gemini-1.5-pro-002'')
             (Gemini key ''models/gemini-1.5-pro-002'') of
        Inl e \<Rightarrow> (s, Inl e)
      | Inr llm \<Rightarrow>
     (case construct (gemini_embedding_fails w ''models/embedding-001'')
             (GeminiEmbedding ''models/embedding-001'') of
        Inl e \<Rightarrow> (s, Inl e)
      | Inr embed_model \<Rightarrow>
        (s\<lparr>settings_llm := Some llm, settings_embed_model := Some embed_model\<rparr>,
         connect_index w env))))"

text \<open>\<open>initialize_chatbot\<close>: an exception is logged and raised again (lines 42-44).\<close>

definition initialize_chatbot :: "world \<Rightarrow> app_state \<Rightarrow> app_state \<times> effect list \<times> (py_exception + vector_store_index)" where
  "initialize_chatbot w s =
     (case initialize_chatbot_body w s of
        (s', Inl e) \<Rightarrow> (s', [LogError (''Error initializing chatbot: '' @ exc_str e)], Inl e)
      | (s', Inr index) \<Rightarrow> (s', [], Inr index))"

definition DEFAULT_TEXT_QA_PROMPT_TMPL :: string where
  "DEFAULT_TEXT_QA_PROMPT_TMPL =
     ''Context information is below.\<newline>'' @
     ''---------------------\<newline>'' @
     ''{context_str}\<newline>'' @
     ''---------------------\<newline>'' @
     ''Given the context information and not prior knowledge, '' @
     ''Only answer questions that you can answer based on the context. '' @
     ''Answer the query.\<newline>'' @
     ''Query: {query_str}\<newline>'' @
     ''Answer: ''"

definition DEFAULT_TEXT_QA_PROMPT :: prompt_template where
  "DEFAULT_TEXT_QA_PROMPT = PromptTemplate DEFAULT_TEXT_QA_PROMPT_TMPL QUESTION_ANSWER"

definition create_query_engine :: "vector_store_index \<Rightarrow> query_engine" where
  "create_query_engine index =
     \<lparr>engine_index = index,
      text_qa_template = DEFAULT_TEXT_QA_PROMPT,
      similarity_top_k = 7\<rparr>"

definition get_response_text :: "py_object \<Rightarrow> py_exception + string" where
  "get_response_text response =
     (case getattr response ''response'' of
        Inl e \<Rightarrow> Inl e
      | Inr v \<Rightarrow> Inr (py_str v))"

text \<open>
  Lines 82-86 of \<open>main\<close>: the engine is built and stored when the session has none. The
  third component is the exception that leaves the block, if any.
\<close>

definition init_system :: "world \<Rightarrow> app_state \<Rightarrow> app_state \<times> effect list \<times> py_exception option" where
  "init_system w s =
     (case session_engine s of
        Some qe \<Rightarrow> (s, [], None)
      | None \<Rightarrow>
         (case initialize_chatbot w s of
            (s', out, Inl e) \<Rightarrow> (s', Spinner ''Initializing system...'' # out, Some e)
          | (s', out, Inr index) \<Rightarrow>
              (s'\<lparr>session_engine := Some (create_query_engine index)\<rparr>,
               Spinner ''Initializing system...'' # out @
                 [Success ''System initialized successfully!''],
               None)))"

text \<open>Lines 89-96: the history is read front to back and each message is displayed.\<close>

definition render_message :: "chat_message \<Rightarrow> effect" where
  "render_message message =
     (if role message = ''user'' then ChatUserWrite (content message)
      else ChatAssistantMarkdown (content message))"

definition render_history :: "chat_message list \<Rightarrow> effect list" where
  "render_history history = map render_message history"

text \<open>\<open>list.extend\<close>.\<close>

definition list_extend :: "'a list \<Rightarrow> 'a list \<Rightarrow> 'a list" where
  "list_extend xs ys = xs @ ys"

text \<open>
  Lines 104-105, the body of the spinner: the engine of the session is read, queried, and
  the text of the response extracted. The effects are the call and its remote calls.
  Reading the key \<open>query_engine\<close> when it is absent raises; \<open>main\<close> never gets there,
  since lines 82-86 have stored an engine or raised.
\<close>

definition invoke_pipeline :: "world \<Rightarrow> app_state \<Rightarrow> string \<Rightarrow> effect list \<times> (py_exception + string)" where
  "invoke_pipeline w s query =
     (case session_engine s of
        None \<Rightarrow> ([], Inl (PyException ''AttributeError''
                   (''st.session_state has no attribute '' @ quote ''query_engine'')))
      | Some qe \<Rightarrow>
         (case query_method w qe query of
            (calls, Inl e) \<Rightarrow> (EngineQuery qe query # map Remote calls, Inl e)
          | (calls, Inr response) \<Rightarrow>
              (EngineQuery qe query # map Remote calls, get_response_text response)))"

text \<open>Lines 100-118: one submitted query.\<close>

definition process_query :: "world \<Rightarrow> string \<Rightarrow> app_state \<Rightarrow> app_state \<times> effect list" where
  "process_query w query s =
     (case invoke_pipeline w s query of
        (out, Inr response_text) \<Rightarrow>
          (s\<lparr>chat_history := list_extend (chat_history s)
                [\<lparr>role = ''user'', content = query\<rparr>,
                 \<lparr>role = ''assistant'', content = response_text\<rparr>]\<rparr>,
           [ChatUserWrite query, Spinner ''Analyzing your question...''] @ out @
           [ChatAssistantMarkdown response_text])
      | (out, Inl e) \<Rightarrow>
          (s,
           [ChatUserWrite query, Spinner ''Analyzing your question...''] @ out @
           [StError (''Error processing question: '' @ exc_str e),
            StInfo ''Please try rephrasing your question.'']))"

text \<open>
  The effects of lines 72-78, which every run starts with. The page icon is the UTF-8
  encoding of U+1F3EA.
\<close>

definition page_header :: "effect list" where
  "page_header =
     [SetPageConfig ''Knowledge AI Agent'' [CHR 0xF0, CHR 0x9F, CHR 0x8F, CHR 0xAA] ''wide'',
      Title ''Knowledge AI Agent'']"

text \<open>
  \<open>main\<close>, on what \<open>st.chat_input\<close> returns in this run: \<open>None\<close> or the submitted
  text. The walrus condition of line 99 holds for a non-empty string only. Drawing the
  input widget is not recorded as an effect.
\<close>

definition main :: "world \<Rightarrow> string option \<Rightarrow> app_state \<Rightarrow> app_state \<times> effect list" where
  "main w chat_input s =
     (case init_system w s of
        (s1, out1, Some e) \<Rightarrow>
          (s1, page_header @ out1 @
               [StError (''System Error: '' @ exc_str e),
                StWarning ''Please check your configuration and try again.''])
      | (s1, out1, None) \<Rightarrow>
          (let out2 = render_history (chat_history s1) in
           case chat_input of
             None \<Rightarrow> (s1, page_header @ out1 @ out2)
           | Some query \<Rightarrow>
               if query = [] then (s1, page_header @ out1 @ out2)
               else (case process_query w query s1 of
                       (s2, out3) \<Rightarrow> (s2, page_header @ out1 @ out2 @ out3))))"

text \<open>
  A session: the script runs once for each interaction, on the state the run before left
  behind. A step is the world of that run and what the chat input returns in it.
\<close>

fun run_session :: "(world \<times> string option) list \<Rightarrow> app_state \<Rightarrow> app_state \<times> effect list" where
  "run_session [] s = (s, [])"
| "run_session ((w, chat_input) # steps) s =
     (case main w chat_input s of
        (s', out) \<Rightarrow> (case run_session steps s' of (s'', outs) \<Rightarrow> (s'', out @ outs)))"

section \<open>The query engine, from the specification\<close>

record retrieved_chunk =
  chunk_text :: string
  similarity_score :: real
  source_metadata :: "(string \<times> string) list"

text \<open>The three remote services of one run (specification, sections 4.1 to 4.3).\<close>

record services =
  embed :: "string \<Rightarrow> py_exception + real list"
  search :: "real list \<Rightarrow> nat \<Rightarrow> py_exception + retrieved_chunk list"
  language_model :: "string \<Rightarrow> py_exception + string"

text \<open>
  Modelled from the spec: the substitution of \<open>{context_str}\<close> and \<open>{query_str}\<close> into
  the template, which the prompt class of the library does and UserApp.py does not contain
  (section 4.3: "substitutes {context_str} and {query_str} into a fixed template"). The
  template is read once, front to back; substituted text is not read again.
\<close>

fun substitute :: "string \<Rightarrow> string \<Rightarrow> string \<Rightarrow> string" where
  "substitute context_str query_str [] = []"
| "substitute context_str query_str (c # cs) =
     (if prefix ''{context_str}'' (c # cs)
      then context_str @
           substitute context_str query_str (drop (length ''{context_str}'') (c # cs))
      else if prefix ''{query_str}'' (c # cs)
      then query_str @
           substitute context_str query_str (drop (length ''{query_str}'') (c # cs))
      else c # substitute context_str query_str cs)"

text \<open>
  Modelled from the spec: the prompt of the answer synthesizer (section 4.3: "concatenates
  chunk texts (in the order received) into a single context block"), library code that
  UserApp.py does not contain.
\<close>

definition render_prompt :: "prompt_template \<Rightarrow> string \<Rightarrow> retrieved_chunk list \<Rightarrow> string" where
  "render_prompt tmpl query chunks =
     substitute (concat (map chunk_text chunks)) query (template tmpl)"

text \<open>
  Modelled from the spec: the \<open>query\<close> method of the engine that \<open>as_query_engine\<close>
  returns, library code that UserApp.py calls and does not contain (section 4.4: "embed(query)
  \<rightarrow> search(vector, k=7) \<rightarrow> synthesize(query, chunks) \<rightarrow> return Answer", with the k and the
  template the engine was built with; a failing step raises and ends the call). The
  validation of the query that section 4.4 puts first is line 99 of \<open>main\<close>.
\<close>

definition answer :: "services \<Rightarrow> query_engine \<Rightarrow> string \<Rightarrow> remote_call list \<times> (py_exception + py_object)" where
  "answer svc qe query =
     (case embed svc query of
        Inl e \<Rightarrow> ([EmbedCall query], Inl e)
      | Inr v \<Rightarrow>
     (case search svc v (similarity_top_k qe) of
        Inl e \<Rightarrow> ([EmbedCall query, SearchCall v (similarity_top_k qe)], Inl e)
      | Inr chunks \<Rightarrow>
     (let prompt = render_prompt (text_qa_template qe) query chunks;
          calls = [EmbedCall query, SearchCall v (similarity_top_k qe), LLMCall prompt]
      in case language_model svc prompt of
           Inl e \<Rightarrow> (calls, Inl e)
         | Inr text \<Rightarrow>
             (calls, Inr \<lparr>class_name = ''Response'',
                          attrs = [''response'' \<mapsto> PyStr text]\<rparr>))))"

section \<open>Reading a trace\<close>

fun engine_queries :: "effect list \<Rightarrow> (query_engine \<times> string) list" where
  "engine_queries [] = []"
| "engine_queries (EngineQuery qe query # out) = (qe, query) # engine_queries out"
| "engine_queries (ev # out) = engine_queries out"

fun remote_calls :: "effect list \<Rightarrow> remote_call list" where
  "remote_calls [] = []"
| "remote_calls (Remote c # out) = c # remote_calls out"
| "remote_calls (ev # out) = remote_calls out"

text \<open>The prompts sent to the language model, in order.\<close>

fun llm_prompts :: "remote_call list \<Rightarrow> string list" where
  "llm_prompts [] = []"
| "llm_prompts (LLMCall prompt # calls) = prompt # llm_prompts calls"
| "llm_prompts (c # calls) = llm_prompts calls"

definition user_turn :: "string \<Rightarrow> chat_message" where
  "user_turn query = \<lparr>role = ''user'', content = query\<rparr>"

definition assistant_turn :: "string \<Rightarrow> chat_message" where
  "assistant_turn response_text = \<lparr>role = ''assistant'', content = response_text\<rparr>"

text \<open>
  A history made of pairs: a user turn, then the assistant turn that answers it.
\<close>

fun paired :: "chat_message list \<Rightarrow> bool" where
  "paired [] = True"
| "paired [m] = False"
| "paired (u # a # rest) = (role u = ''user'' \<and> role a = ''assistant'' \<and> paired rest)"

text \<open>The engine of the session, when there is one, is as \<open>create_query_engine\<close> builds it.\<close>

definition engine_inv :: "app_state \<Rightarrow> bool" where
  "engine_inv s =
     (case session_engine s of
        None \<Rightarrow> True
      | Some qe \<Rightarrow> qe = create_query_engine (engine_index qe))"

text \<open>
  The answered queries of a list of runs on the engine \<open>qe\<close>, as (query, answer text)
  in the order of the runs: a run counts when it has a non-empty query, the \<open>query\<close> call
  returns a response and the response has a text. This is what the specification expects
  the session to have appended, stated without \<open>main\<close>.
\<close>

fun answered_queries :: "query_engine \<Rightarrow> (world \<times> string option) list \<Rightarrow> (string \<times> string) list" where
  "answered_queries qe [] = []"
| "answered_queries qe ((w, None) # steps) = answered_queries qe steps"
| "answered_queries qe ((w, Some query) # steps) =
     (if query = [] then answered_queries qe steps
      else case snd (query_method w qe query) of
             Inl e \<Rightarrow> answered_queries qe steps
           | Inr response \<Rightarrow>
               (case get_response_text response of
                  Inl e \<Rightarrow> answered_queries qe steps
                | Inr response_text \<Rightarrow> (query, response_text) # answered_queries qe steps))"

text \<open>The turns of a list of (query, answer text), and what displaying them shows.\<close>

fun turns_of :: "(string \<times> string) list \<Rightarrow> chat_message list" where
  "turns_of [] = []"
| "turns_of ((query, response_text) # rest) =
     \<lparr>role = ''user'', content = query\<rparr> #
     \<lparr>role = ''assistant'', content = response_text\<rparr> # turns_of rest"

fun display_of :: "(string \<times> string) list \<Rightarrow> effect list" where
  "display_of [] = []"
| "display_of ((query, response_text) # rest) =
     ChatUserWrite query # ChatAssistantMarkdown response_text # display_of rest"

section \<open>Example worlds\<close>

definition response_object :: "py_value \<Rightarrow> py_object" where
  "response_object v = \<lparr>class_name = ''Response'', attrs = [''response'' \<mapsto> v]\<rparr>"

text \<open>Both keys are set, every constructor succeeds, and every query is answered.\<close>

definition ok_world :: "string \<Rightarrow> world" where
  "ok_world text =
     \<lparr>os_environ = [''GOOGLE_API_KEY'' \<mapsto> ''g'', ''PINECONE_API_KEY'' \<mapsto> ''p''],
      dotenv_file = [],
      gemini_fails = (\<lambda>key model. None),
      gemini_embedding_fails = (\<lambda>name. None),
      pinecone_fails = (\<lambda>key. None),
      pinecone_index_fails = (\<lambda>client name. None),
      vector_store_fails = (\<lambda>pindex. None),
      from_vector_store_fails = (\<lambda>store. None),
      query_method = (\<lambda>qe query. ([], Inr (response_object (PyStr text))))\<rparr>"

text \<open>As \<open>ok_world\<close>, but every query raises.\<close>

definition failing_query_world :: world where
  "failing_query_world =
     (ok_world [])\<lparr>query_method :=
        (\<lambda>qe query. ([EmbedCall query], Inl (PyException ''ConnectionError'' ''unreachable'')))\<rparr>"

text \<open>As \<open>ok_world\<close>, but the constructor of the vector-store client raises.\<close>

definition failing_init_world :: world where
  "failing_init_world =
     (ok_world [])\<lparr>pinecone_fails :=
        (\<lambda>key. Some (PyException ''PineconeException'' ''invalid key''))\<rparr>"

text \<open>The fresh session after the first run in \<open>ok_world\<close>: the engine is stored.\<close>

definition ready_session :: app_state where
  "ready_session =
     \<lparr>chat_history = [],
      session_engine = Some (create_query_engine
        (VectorStoreIndex
          (PineconeVectorStore (PineconeIndex (Pinecone ''p'') ''constitution'')))),
      settings_llm = Some (Gemini ''g'' ''models/gemini-1.5-pro-002''),
      settings_embed_model = Some (GeminiEmbedding ''models/embedding-001'')\<rparr>"

definition example_services :: services where
  "example_services =
     \<lparr>embed = (\<lambda>text. Inr [1, 0]),
      search = (\<lambda>v k. Inr [\<lparr>chunk_text = ''Article 1'', similarity_score = 1,
                              source_metadata = []\<rparr>]),
      language_model = (\<lambda>prompt. Inr ''legislature'')\<rparr>"

text \<open>As \<open>ok_world\<close>, with the query method of the specification over given services.\<close>

definition pipeline_world :: "services \<Rightarrow> world" where
  "pipeline_world svc = (ok_world [])\<lparr>query_method := answer svc\<rparr>"

section \<open>Facts about the functions\<close>

lemma init_system_ready: "session_engine s = Some qe \<Longrightarrow> init_system w s = (s, [], None)"
  by (simp add: init_system_def)

lemma initialize_chatbot_history:
  "initialize_chatbot w s = (s', out, r) \<Longrightarrow> chat_history s' = chat_history s"
  by (auto simp: initialize_chatbot_def initialize_chatbot_body_def Let_def
      split: sum.splits prod.splits)

lemma initialize_chatbot_engine:
  "initialize_chatbot w s = (s', out, r) \<Longrightarrow> session_engine s' = session_engine s"
  by (auto simp: initialize_chatbot_def initialize_chatbot_body_def Let_def
      split: sum.splits prod.splits)

lemma engine_queries_append: "engine_queries (xs @ ys) = engine_queries xs @ engine_queries ys"
  by (induction xs rule: engine_queries.induct) simp_all

lemma remote_calls_append: "remote_calls (xs @ ys) = remote_calls xs @ remote_calls ys"
  by (induction xs rule: remote_calls.induct) simp_all

lemma remote_calls_map_Remote: "remote_calls (map Remote cs) = cs"
  by (induction cs) simp_all

lemma engine_queries_map_Remote: "engine_queries (map Remote cs) = []"
  by (induction cs) simp_all

lemma engine_queries_render: "engine_queries (render_history h) = []"
  by (induction h) (simp_all add: render_history_def render_message_def)

lemma remote_calls_render: "remote_calls (render_history h) = []"
  by (induction h) (simp_all add: render_history_def render_message_def)

lemma initialize_chatbot_quiet:
  "initialize_chatbot w s = (s', out, r) \<Longrightarrow> engine_queries out = [] \<and> remote_calls out = []"
  by (auto simp: initialize_chatbot_def split: sum.splits prod.splits)

lemma init_system_history: "init_system w s = (s1, out1, r) \<Longrightarrow> chat_history s1 = chat_history s"
  by (auto simp: init_system_def split: option.splits sum.splits prod.splits
      dest: initialize_chatbot_history)

lemma init_system_ok_engine:
  "init_system w s = (s1, out1, None) \<Longrightarrow> \<exists>qe. session_engine s1 = Some qe"
  by (auto simp: init_system_def split: option.splits sum.splits prod.splits)

lemma init_system_inv: "init_system w s = (s1, out1, r) \<Longrightarrow> engine_inv s \<Longrightarrow> engine_inv s1"
  by (auto simp: init_system_def engine_inv_def create_query_engine_def
      split: option.splits sum.splits prod.splits dest: initialize_chatbot_engine)

lemma init_system_quiet:
  "init_system w s = (s1, out1, r) \<Longrightarrow> engine_queries out1 = [] \<and> remote_calls out1 = []"
  by (auto simp: init_system_def split: option.splits sum.splits prod.splits
      dest: initialize_chatbot_quiet simp: engine_queries_append remote_calls_append)

lemma main_init_failed:
  "init_system w s = (s1, out1, Some e) \<Longrightarrow>
   main w chat_input s =
     (s1, page_header @ out1 @
          [StError (''System Error: '' @ exc_str e),
           StWarning ''Please check your configuration and try again.''])"
  by (simp add: main_def)

lemma main_no_query:
  "init_system w s = (s1, out1, None) \<Longrightarrow> chat_input = None \<or> chat_input = Some [] \<Longrightarrow>
   main w chat_input s = (s1, page_header @ out1 @ render_history (chat_history s1))"
  by (auto simp: main_def)

lemma main_query:
  "init_system w s = (s1, out1, None) \<Longrightarrow> query \<noteq> [] \<Longrightarrow>
   main w (Some query) s =
     (fst (process_query w query s1),
      page_header @ out1 @ render_history (chat_history s1) @ snd (process_query w query s1))"
  by (simp add: main_def split: prod.splits)

lemma process_query_ok:
  "invoke_pipeline w s query = (out, Inr response_text) \<Longrightarrow>
   process_query w query s =
     (s\<lparr>chat_history := chat_history s @ [user_turn query, assistant_turn response_text]\<rparr>,
      [ChatUserWrite query, Spinner ''Analyzing your question...''] @ out @
      [ChatAssistantMarkdown response_text])"
  by (simp add: process_query_def list_extend_def user_turn_def assistant_turn_def)

lemma process_query_failed:
  "invoke_pipeline w s query = (out, Inl e) \<Longrightarrow>
   process_query w query s =
     (s,
      [ChatUserWrite query, Spinner ''Analyzing your question...''] @ out @
      [StError (''Error processing question: '' @ exc_str e),
       StInfo ''Please try rephrasing your question.''])"
  by (simp add: process_query_def)

lemma paired_append_pair:
  "paired h \<Longrightarrow> paired (h @ [u, a]) = (role u = ''user'' \<and> role a = ''assistant'')"
  by (induction h rule: paired.induct) simp_all

lemma process_query_paired: "paired (chat_history s) \<Longrightarrow> paired (chat_history (fst (process_query w query s)))"
  by (simp add: process_query_def list_extend_def paired_append_pair split: prod.splits sum.splits)

lemma main_cases:
  obtains (failed) s1 out1 e where "init_system w s = (s1, out1, Some e)"
  | (idle) s1 out1 where "init_system w s = (s1, out1, None)" "chat_input = None \<or> chat_input = Some []"
  | (query) s1 out1 query where "init_system w s = (s1, out1, None)" "chat_input = Some query" "query \<noteq> []"
proof (cases "init_system w s")
  case (fields s1 out1 r)
  then show ?thesis
    using failed idle query by (cases r; cases chat_input) auto
qed

lemma main_paired: "paired (chat_history s) \<Longrightarrow> paired (chat_history (fst (main w chat_input s)))"
proof (rule main_cases [where w = w and s = s and chat_input = chat_input])
  fix s1 out1 e
  assume "init_system w s = (s1, out1, Some e)"
  then show "paired (chat_history s) \<Longrightarrow> ?thesis"
    by (simp add: main_init_failed init_system_history)
next
  fix s1 out1
  assume "init_system w s = (s1, out1, None)" "chat_input = None \<or> chat_input = Some []"
  then show "paired (chat_history s) \<Longrightarrow> ?thesis"
    by (simp add: main_no_query init_system_history)
next
  fix s1 out1 query
  assume "init_system w s = (s1, out1, None)" "chat_input = Some query" "query \<noteq> []"
  then show "paired (chat_history s) \<Longrightarrow> ?thesis"
    by (simp add: main_query init_system_history process_query_paired)
qed

lemma init_ok_world:
  "init_system (ok_world text) fresh_session =
     (ready_session,
      [Spinner ''Initializing system...'', Success ''System initialized successfully!''],
      None)"
  by (simp add: init_system_def initialize_chatbot_def initialize_chatbot_body_def
      connect_index_def environ_get_def load_dotenv_def construct_def ok_world_def
      fresh_session_def ready_session_def)

lemma init_ready_session: "init_system w ready_session = (ready_session, [], None)"
  by (simp add: init_system_def ready_session_def)

lemma invoke_ok_world:
  "invoke_pipeline (ok_world text) ready_session query =
     ([EngineQuery (the (session_engine ready_session)) query], Inr text)"
  by (simp add: invoke_pipeline_def ok_world_def ready_session_def get_response_text_def
      getattr_def response_object_def)

lemma run_session_Cons:
  "run_session ((w, chat_input) # steps) s =
     (fst (run_session steps (fst (main w chat_input s))),
      snd (main w chat_input s) @ snd (run_session steps (fst (main w chat_input s))))"
  by (simp split: prod.splits)

lemma main_history:
  "chat_history (fst (main w chat_input s)) =
     (case init_system w s of
        (s1, out1, Some e) \<Rightarrow> chat_history s
      | (s1, out1, None) \<Rightarrow>
          (case chat_input of
             None \<Rightarrow> chat_history s
           | Some query \<Rightarrow>
               if query = [] then chat_history s
               else (case snd (invoke_pipeline w s1 query) of
                       Inl e \<Rightarrow> chat_history s
                     | Inr response_text \<Rightarrow>
                         chat_history s @ [user_turn query, assistant_turn response_text])))"
  by (auto simp: main_def process_query_def list_extend_def user_turn_def assistant_turn_def
      split: prod.splits option.splits sum.splits dest: init_system_history)

lemma run_session_paired:
  "paired (chat_history s) \<Longrightarrow> paired (chat_history (fst (run_session steps s)))"
proof (induction steps arbitrary: s)
  case Nil
  then show ?case by simp
next
  case (Cons step steps)
  obtain w chat_input where step: "step = (w, chat_input)" by (cases step)
  have "paired (chat_history (fst (main w chat_input s)))"
    using Cons.prems by (rule main_paired)
  then have "paired (chat_history (fst (run_session steps (fst (main w chat_input s)))))"
    by (rule Cons.IH)
  then show ?case by (simp add: step run_session_Cons del: run_session.simps)
qed

lemma paired_roles:
  "paired h \<Longrightarrow>
   even (length h) \<and>
   map role h = concat (replicate (length h div 2) [''user'', ''assistant''])"
  by (induction h rule: paired.induct) simp_all

lemma roles_of_pairs:
  "set (concat (replicate n [''user'', ''assistant''])) \<subseteq> {''user'', ''assistant''}"
  by (induction n) simp_all

lemmas run_defs =
  main_def init_system_def initialize_chatbot_def initialize_chatbot_body_def
  connect_index_def environ_get_def load_dotenv_def construct_def create_query_engine_def
  process_query_def invoke_pipeline_def get_response_text_def getattr_def
  render_history_def render_message_def list_extend_def page_header_def
  user_turn_def assistant_turn_def fresh_session_def ready_session_def
  ok_world_def failing_query_world_def response_object_def

lemma engine_queries_page_header: "engine_queries page_header = []"
  by (simp add: page_header_def)

lemma remote_calls_page_header: "remote_calls page_header = []"
  by (simp add: page_header_def)

lemma process_query_queries:
  "session_engine s = Some qe \<Longrightarrow>
   engine_queries (snd (process_query w query s)) = [(qe, query)]"
  by (auto simp: process_query_def invoke_pipeline_def engine_queries_map_Remote
      engine_queries_append split: prod.splits sum.splits)

lemma main_engine_queries:
  "engine_queries (snd (main w chat_input s)) =
     (case init_system w s of
        (s1, out1, Some e) \<Rightarrow> []
      | (s1, out1, None) \<Rightarrow>
          (case chat_input of
             None \<Rightarrow> []
           | Some query \<Rightarrow>
               if query = [] then [] else [(the (session_engine s1), query)]))"
proof (rule main_cases [where w = w and s = s and chat_input = chat_input])
  fix s1 out1 e
  assume "init_system w s = (s1, out1, Some e)"
  then show ?thesis
    by (simp add: main_init_failed engine_queries_append engine_queries_page_header
        init_system_quiet)
next
  fix s1 out1
  assume "init_system w s = (s1, out1, None)" "chat_input = None \<or> chat_input = Some []"
  then show ?thesis
    by (auto simp: main_no_query engine_queries_append engine_queries_page_header
        init_system_quiet engine_queries_render)
next
  fix s1 out1 query
  assume a: "init_system w s = (s1, out1, None)" "chat_input = Some query" "query \<noteq> []"
  then obtain qe where "session_engine s1 = Some qe"
    using init_system_ok_engine by blast
  with a show ?thesis
    by (simp add: main_query engine_queries_append engine_queries_page_header
        init_system_quiet engine_queries_render process_query_queries)
qed

lemma main_engine: "session_engine (fst (main w chat_input s)) = session_engine (fst (init_system w s))"
  by (simp add: main_def process_query_def Let_def split: prod.splits option.splits sum.splits)

lemma main_inv: "engine_inv s \<Longrightarrow> engine_inv (fst (main w chat_input s))"
proof -
  assume inv: "engine_inv s"
  obtain s1 out1 r where i: "init_system w s = (s1, out1, r)"
    by (cases "init_system w s")
  then have "engine_inv s1" using inv by (rule init_system_inv)
  then show ?thesis
    using main_engine [of w chat_input s] i by (simp add: engine_inv_def)
qed

lemma main_queries_configured:
  assumes "engine_inv s"
  shows "list_all (\<lambda>(qe, query). qe = create_query_engine (engine_index qe))
           (engine_queries (snd (main w chat_input s)))"
proof -
  obtain s1 out1 r where i: "init_system w s = (s1, out1, r)"
    by (cases "init_system w s")
  then have inv1: "engine_inv s1" using assms by (rule init_system_inv)
  show ?thesis
  proof (cases r)
    case None
    then obtain qe where "session_engine s1 = Some qe"
      using i init_system_ok_engine by blast
    with inv1 None i show ?thesis
      by (simp add: main_engine_queries engine_inv_def split: option.splits)
  next
    case (Some e)
    with i show ?thesis by (simp add: main_engine_queries)
  qed
qed

lemma run_session_queries_configured:
  "engine_inv s \<Longrightarrow>
   list_all (\<lambda>(qe, query). qe = create_query_engine (engine_index qe))
     (engine_queries (snd (run_session steps s)))"
proof (induction steps arbitrary: s)
  case Nil
  show ?case by simp
next
  case (Cons step steps)
  obtain w chat_input where step: "step = (w, chat_input)" by (cases step)
  have "engine_inv (fst (main w chat_input s))"
    using Cons.prems by (rule main_inv)
  then have "list_all (\<lambda>(qe, query). qe = create_query_engine (engine_index qe))
     (engine_queries (snd (run_session steps (fst (main w chat_input s)))))"
    by (rule Cons.IH)
  moreover have "list_all (\<lambda>(qe, query). qe = create_query_engine (engine_index qe))
     (engine_queries (snd (main w chat_input s)))"
    using Cons.prems by (rule main_queries_configured)
  ultimately show ?case
    by (simp add: step run_session_Cons engine_queries_append del: run_session.simps)
qed

lemma fresh_session_inv: "engine_inv fresh_session"
  by (simp add: engine_inv_def fresh_session_def)

lemma configured_top_k:
  "list_all (\<lambda>(qe, query). qe = create_query_engine (engine_index qe)) qs \<Longrightarrow>
   map (similarity_top_k \<circ> fst) qs = replicate (length qs) 7"
proof (induction qs)
  case Nil
  show ?case by simp
next
  case (Cons q qs)
  obtain qe query where q: "q = (qe, query)" by (cases q)
  from Cons.prems have "qe = create_query_engine (engine_index qe)"
    by (simp add: q)
  then have "similarity_top_k qe = similarity_top_k (create_query_engine (engine_index qe))"
    by simp
  then have "similarity_top_k qe = 7"
    by (simp add: create_query_engine_def)
  with Cons show ?case by (simp add: q)
qed

lemma substitute_template:
  "substitute context_str query_str DEFAULT_TEXT_QA_PROMPT_TMPL =
     ''Context information is below.\<newline>---------------------\<newline>'' @ context_str @
     ''\<newline>---------------------\<newline>Given the context information and not prior knowledge, Only answer questions that you can answer based on the context. Answer the query.\<newline>Query: '' @
     query_str @ ''\<newline>Answer: ''"
  by (simp add: DEFAULT_TEXT_QA_PROMPT_TMPL_def)

lemma render_default_prompt:
  "render_prompt DEFAULT_TEXT_QA_PROMPT query chunks =
     ''Context information is below.\<newline>---------------------\<newline>'' @
     concat (map chunk_text chunks) @
     ''\<newline>---------------------\<newline>Given the context information and not prior knowledge, Only answer questions that you can answer based on the context. Answer the query.\<newline>Query: '' @
     query @ ''\<newline>Answer: ''"
  by (simp only: render_prompt_def DEFAULT_TEXT_QA_PROMPT_def prompt_template.sel
      substitute_template)

lemma template_placeholders:
  "sublist ''{context_str}'' DEFAULT_TEXT_QA_PROMPT_TMPL \<and>
   sublist ''{query_str}'' DEFAULT_TEXT_QA_PROMPT_TMPL"
proof -
  have "DEFAULT_TEXT_QA_PROMPT_TMPL =
     ''Context information is below.\<newline>---------------------\<newline>'' @ ''{context_str}'' @
     ''\<newline>---------------------\<newline>Given the context information and not prior knowledge, Only answer questions that you can answer based on the context. Answer the query.\<newline>Query: {query_str}\<newline>Answer: ''"
    by (simp add: DEFAULT_TEXT_QA_PROMPT_TMPL_def)
  then have a: "sublist ''{context_str}'' DEFAULT_TEXT_QA_PROMPT_TMPL"
    unfolding sublist_def by blast
  have "DEFAULT_TEXT_QA_PROMPT_TMPL =
     ''Context information is below.\<newline>---------------------\<newline>{context_str}\<newline>---------------------\<newline>Given the context information and not prior knowledge, Only answer questions that you can answer based on the context. Answer the query.\<newline>Query: '' @ ''{query_str}'' @ ''\<newline>Answer: ''"
    by (simp add: DEFAULT_TEXT_QA_PROMPT_TMPL_def)
  then have b: "sublist ''{query_str}'' DEFAULT_TEXT_QA_PROMPT_TMPL"
    unfolding sublist_def by blast
  from a b show ?thesis by simp
qed

lemma initialize_chatbot_raises_log:
  "initialize_chatbot w s = (s', out, Inl e) \<Longrightarrow>
   out = [LogError (''Error initializing chatbot: '' @ exc_str e)]"
  by (auto simp: initialize_chatbot_def split: prod.splits sum.splits)

lemma init_system_absent:
  "session_engine s = None \<Longrightarrow>
   init_system w s =
     (case initialize_chatbot w s of
        (s', out, Inl e) \<Rightarrow> (s', Spinner ''Initializing system...'' # out, Some e)
      | (s', out, Inr index) \<Rightarrow>
          (s'\<lparr>session_engine := Some (create_query_engine index)\<rparr>,
           Spinner ''Initializing system...'' # out @
             [Success ''System initialized successfully!''],
           None))"
  by (simp add: init_system_def)

text \<open>
  \<open>initialize_chatbot\<close> returns an index only when both keys are set and no constructor
  failed: a failure of any of them makes it raise.
\<close>

lemma initialize_chatbot_returns:
  assumes "initialize_chatbot w s = (s', out, Inr index)"
  shows "\<exists>gkey pkey.
           load_dotenv (dotenv_file w) (os_environ w) ''GOOGLE_API_KEY'' = Some gkey \<and>
           gemini_fails w gkey ''models/gemini-1.5-pro-002'' = None \<and>
           gemini_embedding_fails w ''models/embedding-001'' = None \<and>
           load_dotenv (dotenv_file w) (os_environ w) ''PINECONE_API_KEY'' = Some pkey \<and>
           pinecone_fails w pkey = None \<and>
           pinecone_index_fails w (Pinecone pkey) ''constitution'' = None \<and>
           vector_store_fails w (PineconeIndex (Pinecone pkey) ''constitution'') = None \<and>
           from_vector_store_fails w
             (PineconeVectorStore (PineconeIndex (Pinecone pkey) ''constitution'')) = None \<and>
           index = VectorStoreIndex
             (PineconeVectorStore (PineconeIndex (Pinecone pkey) ''constitution''))"
  using assms
  by (auto simp: initialize_chatbot_def initialize_chatbot_body_def connect_index_def
      environ_get_def construct_def Let_def split: prod.splits sum.splits option.splits)

lemma run_session_inv: "engine_inv s \<Longrightarrow> engine_inv (fst (run_session steps s))"
proof (induction steps arbitrary: s)
  case Nil
  then show ?case by simp
next
  case (Cons step steps)
  obtain w chat_input where step: "step = (w, chat_input)" by (cases step)
  have "engine_inv (fst (main w chat_input s))"
    using Cons.prems by (rule main_inv)
  then have "engine_inv (fst (run_session steps (fst (main w chat_input s))))"
    by (rule Cons.IH)
  then show ?case by (simp add: step run_session_Cons del: run_session.simps)
qed

lemma engine_inv_fields:
  "engine_inv s \<Longrightarrow> session_engine s = Some qe \<Longrightarrow>
   similarity_top_k qe = 7 \<and> text_qa_template qe = DEFAULT_TEXT_QA_PROMPT"
proof -
  assume "engine_inv s" "session_engine s = Some qe"
  then have "qe = create_query_engine (engine_index qe)"
    by (simp add: engine_inv_def)
  then have "similarity_top_k qe = similarity_top_k (create_query_engine (engine_index qe))"
    and "text_qa_template qe = text_qa_template (create_query_engine (engine_index qe))"
    by simp_all
  then show ?thesis by (simp add: create_query_engine_def)
qed

lemma configured_template:
  "list_all (\<lambda>(qe, query). qe = create_query_engine (engine_index qe)) qs \<Longrightarrow>
   map (text_qa_template \<circ> fst) qs = replicate (length qs) DEFAULT_TEXT_QA_PROMPT"
proof (induction qs)
  case Nil
  show ?case by simp
next
  case (Cons q qs)
  obtain qe query where q: "q = (qe, query)" by (cases q)
  from Cons.prems have "qe = create_query_engine (engine_index qe)"
    by (simp add: q)
  then have "text_qa_template qe = text_qa_template (create_query_engine (engine_index qe))"
    by simp
  then have "text_qa_template qe = DEFAULT_TEXT_QA_PROMPT"
    by (simp add: create_query_engine_def)
  with Cons show ?case by (simp add: q)
qed

lemma template_instruction:
  "sublist ''Given the context information and not prior knowledge, Only answer questions that you can answer based on the context. ''
     DEFAULT_TEXT_QA_PROMPT_TMPL"
proof -
  have "DEFAULT_TEXT_QA_PROMPT_TMPL =
     ''Context information is below.\<newline>---------------------\<newline>{context_str}\<newline>---------------------\<newline>'' @
     ''Given the context information and not prior knowledge, Only answer questions that you can answer based on the context. '' @
     ''Answer the query.\<newline>Query: {query_str}\<newline>Answer: ''"
    by (simp add: DEFAULT_TEXT_QA_PROMPT_TMPL_def)
  then show ?thesis
    unfolding sublist_def by blast
qed

lemma llm_prompts_answer:
  "llm_prompts (fst (answer svc qe query)) =
     (case embed svc query of
        Inl e \<Rightarrow> []
      | Inr v \<Rightarrow>
          (case search svc v (similarity_top_k qe) of
             Inl e \<Rightarrow> []
           | Inr chunks \<Rightarrow> [render_prompt (text_qa_template qe) query chunks]))"
  by (simp add: answer_def Let_def split: sum.splits)

lemma process_query_answer:
  assumes "session_engine s = Some qe" and "query_method w = answer svc"
    and "similarity_top_k qe = 7" and "text_qa_template qe = DEFAULT_TEXT_QA_PROMPT"
  shows "snd (process_query w query s) =
     [ChatUserWrite query, Spinner ''Analyzing your question...'', EngineQuery qe query,
      Remote (EmbedCall query)] @
     (case embed svc query of
        Inl e \<Rightarrow>
          [StError (''Error processing question: '' @ exc_str e),
           StInfo ''Please try rephrasing your question.'']
      | Inr v \<Rightarrow>
          Remote (SearchCall v 7) #
          (case search svc v 7 of
             Inl e \<Rightarrow>
               [StError (''Error processing question: '' @ exc_str e),
                StInfo ''Please try rephrasing your question.'']
           | Inr chunks \<Rightarrow>
               Remote (LLMCall (render_prompt DEFAULT_TEXT_QA_PROMPT query chunks)) #
               (case language_model svc (render_prompt DEFAULT_TEXT_QA_PROMPT query chunks) of
                  Inl e \<Rightarrow>
                    [StError (''Error processing question: '' @ exc_str e),
                     StInfo ''Please try rephrasing your question.'']
                | Inr text \<Rightarrow> [ChatAssistantMarkdown text])))"
  using assms
  by (simp add: process_query_def invoke_pipeline_def answer_def Let_def
      get_response_text_def getattr_def split: sum.splits)

lemma turns_of_append: "turns_of (xs @ ys) = turns_of xs @ turns_of ys"
  by (induction xs rule: turns_of.induct) simp_all

lemma render_turns_of: "render_history (turns_of pairs) = display_of pairs"
  by (induction pairs rule: turns_of.induct) (simp_all add: render_history_def render_message_def)

lemma invoke_pipeline_result:
  "session_engine s = Some qe \<Longrightarrow>
   snd (invoke_pipeline w s query) =
     (case snd (query_method w qe query) of
        Inl e \<Rightarrow> Inl e
      | Inr response \<Rightarrow> get_response_text response)"
  by (simp add: invoke_pipeline_def split: prod.splits sum.splits)

lemma main_records_answer:
  assumes "session_engine s = Some qe"
  shows "chat_history (fst (main w chat_input s)) =
           chat_history s @ turns_of (answered_queries qe [(w, chat_input)])"
proof -
  have i: "init_system w s = (s, [], None)"
    using assms by (rule init_system_ready)
  show ?thesis
  proof (cases chat_input)
    case None
    with i show ?thesis by (simp add: main_history)
  next
    case (Some query)
    with i show ?thesis
      by (simp add: main_history invoke_pipeline_result [OF assms] user_turn_def
          assistant_turn_def split: sum.splits)
  qed
qed

lemma main_keeps_engine:
  "session_engine s = Some qe \<Longrightarrow> session_engine (fst (main w chat_input s)) = Some qe"
  by (simp add: main_engine init_system_ready)

lemma answered_queries_Cons:
  "answered_queries qe (step # steps) = answered_queries qe [step] @ answered_queries qe steps"
proof -
  obtain w chat_input where step: "step = (w, chat_input)" by (cases step)
  show ?thesis
    unfolding step by (cases chat_input) (simp_all split: sum.splits)
qed

lemma run_session_records_answers:
  "session_engine s = Some qe \<Longrightarrow>
   chat_history (fst (run_session steps s)) =
     chat_history s @ turns_of (answered_queries qe steps) \<and>
   session_engine (fst (run_session steps s)) = Some qe"
proof (induction steps arbitrary: s)
  case Nil
  then show ?case by simp
next
  case (Cons step steps)
  obtain w chat_input where step: "step = (w, chat_input)" by (cases step)
  let ?s' = "fst (main w chat_input s)"
  have e: "session_engine ?s' = Some qe"
    using Cons.prems by (rule main_keeps_engine)
  have h: "chat_history ?s' = chat_history s @ turns_of (answered_queries qe [(w, chat_input)])"
    using Cons.prems by (rule main_records_answer)
  have "chat_history (fst (run_session steps ?s')) =
          chat_history ?s' @ turns_of (answered_queries qe steps) \<and>
        session_engine (fst (run_session steps ?s')) = Some qe"
    using e by (rule Cons.IH)
  then show ?case
    unfolding step
    by (simp add: run_session_Cons h answered_queries_Cons [of qe "(w, chat_input)" steps]
        turns_of_append del: run_session.simps answered_queries.simps)
qed

section \<open>The properties of the specification\<close>



text \<open>
  C10. \<open>get_response_text\<close> returns a string on every response object that has an
  attribute \<open>response\<close>: the \<open>str\<close> of that attribute. When the attribute is \<open>None\<close> the
  result is the non-empty string "None".
\<close>

theorem get_response_text_total:
  assumes "attrs response ''response'' = Some v"
  shows "\<exists>text. get_response_text response = Inr text \<and> text = py_str v \<and>
           (case v of PyNone \<Rightarrow> text = ''None'' \<and> text \<noteq> [] | PyStr s \<Rightarrow> text = s)"
  using assms by (cases v) (simp_all add: get_response_text_def getattr_def)

theorem get_response_text_total_witness:
  "attrs (response_object PyNone) ''response'' = Some PyNone \<and>
   get_response_text (response_object PyNone) = Inr ''None''"
proof -
  have h: "attrs (response_object PyNone) ''response'' = Some PyNone"
    by (simp add: response_object_def)
  show ?thesis
    using h get_response_text_total [OF h] by simp
qed

text \<open>
  C8. A query whose pipeline invocation raises leaves the chat history exactly as it was:
  neither the user turn nor an assistant turn is appended. The two turns are appended only
  when the invocation returned a response text.
\<close>

theorem failed_query_leaves_history:
  assumes "init_system w s = (s1, out1, None)" and "query \<noteq> []"
  shows "chat_history (fst (main w (Some query) s)) =
           (case snd (invoke_pipeline w s1 query) of
              Inl e \<Rightarrow> chat_history s
            | Inr response_text \<Rightarrow>
                chat_history s @ [user_turn query, assistant_turn response_text])"
  using assms by (simp add: main_history)

theorem failed_query_leaves_history_witness:
  "init_system failing_query_world
     (ready_session\<lparr>chat_history := [user_turn ''a'', assistant_turn ''b'']\<rparr>) =
     (ready_session\<lparr>chat_history := [user_turn ''a'', assistant_turn ''b'']\<rparr>, [], None) \<and>
   ''q'' \<noteq> [] \<and>
   chat_history (fst (main failing_query_world (Some ''q'')
     (ready_session\<lparr>chat_history := [user_turn ''a'', assistant_turn ''b'']\<rparr>))) =
     [user_turn ''a'', assistant_turn ''b'']"
proof -
  let ?s = "ready_session\<lparr>chat_history := [user_turn ''a'', assistant_turn ''b'']\<rparr>"
  have h1: "init_system failing_query_world ?s = (?s, [], None)"
    by (simp add: init_system_def ready_session_def)
  have h2: "''q'' \<noteq> []" by simp
  have h3: "snd (invoke_pipeline failing_query_world ?s ''q'') =
              Inl (PyException ''ConnectionError'' ''unreachable'')"
    by (simp add: invoke_pipeline_def failing_query_world_def ok_world_def ready_session_def)
  show ?thesis
    using failed_query_leaves_history [OF h1 h2] h1 by (simp add: h3)
qed

text \<open>
  C2. When the \<open>query\<close> call of a query raises, the exception is caught at the pipeline
  invocation: the run ends normally with the messages "Error processing question: ..." and
  "Please try rephrasing your question.", and it leaves the state that the same run without
  a query leaves: the history is the one before, the engine is the one before and is not
  built again, and the rest of the session runs from that state.
\<close>

theorem query_failure_recovered:
  assumes "init_system w s = (s1, out1, None)" and "session_engine s1 = Some qe"
    and "query \<noteq> []" and "query_method w qe query = (calls, Inl e)"
  shows "main w (Some query) s =
           (s1,
            page_header @ out1 @ render_history (chat_history s1) @
            [ChatUserWrite query, Spinner ''Analyzing your question...'', EngineQuery qe query] @
            map Remote calls @
            [StError (''Error processing question: '' @ exc_str e),
             StInfo ''Please try rephrasing your question.''])
       \<and> fst (main w (Some query) s) = fst (main w None s)
       \<and> chat_history s1 = chat_history s
       \<and> init_system w' s1 = (s1, [], None)
       \<and> run_session ((w, Some query) # steps) s =
           (fst (run_session steps s1),
            snd (main w (Some query) s) @ snd (run_session steps s1))"
proof -
  have inv: "invoke_pipeline w s1 query = (EngineQuery qe query # map Remote calls, Inl e)"
    using assms(2,4) by (simp add: invoke_pipeline_def)
  have m: "main w (Some query) s =
           (s1,
            page_header @ out1 @ render_history (chat_history s1) @
            [ChatUserWrite query, Spinner ''Analyzing your question...'', EngineQuery qe query] @
            map Remote calls @
            [StError (''Error processing question: '' @ exc_str e),
             StInfo ''Please try rephrasing your question.''])"
    using assms(1,3) inv by (simp add: main_query process_query_failed)
  have idle: "fst (main w None s) = s1"
    using assms(1) by (simp add: main_no_query)
  have h: "chat_history s1 = chat_history s"
    using assms(1) by (rule init_system_history)
  have again: "init_system w' s1 = (s1, [], None)"
    using assms(2) by (rule init_system_ready)
  have rest: "run_session ((w, Some query) # steps) s =
           (fst (run_session steps s1),
            snd (main w (Some query) s) @ snd (run_session steps s1))"
    by (simp add: m split: prod.splits)
  from m idle h again rest show ?thesis by simp
qed

theorem query_failure_recovered_witness:
  "init_system failing_query_world ready_session = (ready_session, [], None) \<and>
   session_engine ready_session = Some (the (session_engine ready_session)) \<and>
   ''q'' \<noteq> [] \<and>
   query_method failing_query_world (the (session_engine ready_session)) ''q'' =
     ([EmbedCall ''q''], Inl (PyException ''ConnectionError'' ''unreachable'')) \<and>
   run_session [(failing_query_world, Some ''q''), (ok_world ''A'', Some ''q'')] ready_session =
     (ready_session\<lparr>chat_history := [user_turn ''q'', assistant_turn ''A'']\<rparr>,
      page_header @
      [ChatUserWrite ''q'', Spinner ''Analyzing your question...'',
       EngineQuery (the (session_engine ready_session)) ''q'', Remote (EmbedCall ''q''),
       StError ''Error processing question: unreachable'',
       StInfo ''Please try rephrasing your question.''] @
      page_header @
      [ChatUserWrite ''q'', Spinner ''Analyzing your question...'',
       EngineQuery (the (session_engine ready_session)) ''q'',
       ChatAssistantMarkdown ''A''])"
proof -
  let ?qe = "the (session_engine ready_session)"
  have h1: "init_system failing_query_world ready_session = (ready_session, [], None)"
    by (rule init_ready_session)
  have h2: "session_engine ready_session = Some ?qe"
    by (simp add: ready_session_def)
  have h3: "''q'' \<noteq> []" by simp
  have h4: "query_method failing_query_world ?qe ''q'' =
     ([EmbedCall ''q''], Inl (PyException ''ConnectionError'' ''unreachable''))"
    by (simp add: failing_query_world_def)
  have h5: "chat_history ready_session = []" by (simp add: ready_session_def)
  have next_run: "main (ok_world ''A'') (Some ''q'') ready_session =
     (ready_session\<lparr>chat_history := [user_turn ''q'', assistant_turn ''A'']\<rparr>,
      page_header @
      [ChatUserWrite ''q'', Spinner ''Analyzing your question...'',
       EngineQuery ?qe ''q'', ChatAssistantMarkdown ''A''])"
    using init_ready_session [of "ok_world ''A''"]
    by (simp add: main_query process_query_ok invoke_ok_world h5 render_history_def)
  show ?thesis
    using query_failure_recovered [OF h1 h2 h3 h4, of "ok_world ''A''" "[(ok_world ''A'', Some ''q'')]"]
      h1 h2 h4
    by (simp add: run_session_Cons next_run h5 render_history_def del: run_session.simps(2))
qed

text \<open>
  C9. From a fresh session, whatever the runs of the script and their outcomes, the chat
  history is a sequence of pairs, a user turn followed by an assistant turn: its length is
  even, its roles are user, assistant, user, assistant, and so on, and no other role
  occurs.
\<close>

theorem history_pairing_invariant:
  "paired (chat_history (fst (run_session steps fresh_session))) \<and>
   even (length (chat_history (fst (run_session steps fresh_session)))) \<and>
   map role (chat_history (fst (run_session steps fresh_session))) =
     concat (replicate (length (chat_history (fst (run_session steps fresh_session))) div 2)
       [''user'', ''assistant'']) \<and>
   set (map role (chat_history (fst (run_session steps fresh_session))))
     \<subseteq> {''user'', ''assistant''}"
proof -
  let ?h = "chat_history (fst (run_session steps fresh_session))"
  have "paired (chat_history fresh_session)"
    by (simp add: fresh_session_def)
  then have p: "paired ?h"
    by (rule run_session_paired)
  then have r: "even (length ?h) \<and>
      map role ?h = concat (replicate (length ?h div 2) [''user'', ''assistant''])"
    by (rule paired_roles)
  then have "set (map role ?h) \<subseteq> {''user'', ''assistant''}"
    using roles_of_pairs [of "length ?h div 2"] by simp
  with p r show ?thesis by simp
qed

theorem history_pairing_invariant_witness:
  "chat_history (fst (run_session
      [(ok_world ''A'', Some ''q''), (failing_query_world, Some ''r''), (ok_world ''B'', Some ''s'')]
      fresh_session)) =
     [user_turn ''q'', assistant_turn ''A'', user_turn ''s'', assistant_turn ''B''] \<and>
   paired [user_turn ''q'', assistant_turn ''A'', user_turn ''s'', assistant_turn ''B'']"
proof -
  let ?steps = "[(ok_world ''A'', Some ''q''), (failing_query_world, Some ''r''),
                 (ok_world ''B'', Some ''s'')]"
  have h: "chat_history (fst (run_session ?steps fresh_session)) =
     [user_turn ''q'', assistant_turn ''A'', user_turn ''s'', assistant_turn ''B'']"
    by (simp add: run_defs)
  show ?thesis
    using history_pairing_invariant [of ?steps] h by simp
qed

text \<open>
  C4. \<open>create_query_engine\<close> builds every engine with \<open>similarity_top_k = 7\<close>, and from a
  fresh session, whatever the runs of the script, every \<open>query\<close> call is made on an engine
  whose \<open>similarity_top_k\<close> is 7: no run and no query changes the value.
\<close>

theorem top_k_fixed:
  "similarity_top_k (create_query_engine index) = 7 \<and>
   map (similarity_top_k \<circ> fst) (engine_queries (snd (run_session steps fresh_session))) =
     replicate (length (engine_queries (snd (run_session steps fresh_session)))) 7"
proof -
  have "list_all (\<lambda>(qe, query). qe = create_query_engine (engine_index qe))
     (engine_queries (snd (run_session steps fresh_session)))"
    using fresh_session_inv by (rule run_session_queries_configured)
  then have "map (similarity_top_k \<circ> fst) (engine_queries (snd (run_session steps fresh_session))) =
     replicate (length (engine_queries (snd (run_session steps fresh_session)))) 7"
    by (rule configured_top_k)
  then show ?thesis by (simp add: create_query_engine_def)
qed

theorem top_k_fixed_witness:
  "engine_queries (snd (run_session
     [(ok_world ''A'', Some ''q''), (failing_query_world, Some ''r'')] fresh_session)) =
     [(the (session_engine ready_session), ''q''), (the (session_engine ready_session), ''r'')] \<and>
   map (similarity_top_k \<circ> fst) (engine_queries (snd (run_session
     [(ok_world ''A'', Some ''q''), (failing_query_world, Some ''r'')] fresh_session))) = [7, 7]"
proof -
  let ?steps = "[(ok_world ''A'', Some ''q''), (failing_query_world, Some ''r'')]"
  have h: "engine_queries (snd (run_session ?steps fresh_session)) =
     [(the (session_engine ready_session), ''q''), (the (session_engine ready_session), ''r'')]"
    by (simp add: run_defs)
  show ?thesis
    using top_k_fixed [of undefined ?steps] h by (simp add: numeral_2_eq_2)
qed

text \<open>
  C7, as the code has it. When \<open>initialize_chatbot\<close> raises, as it does when a client
  cannot be constructed, that run of the script ends there: the exception is logged, no
  engine is created or stored, the history is untouched and not displayed, no query is
  sent, and the user sees "System Error: ..." and "Please check your configuration and try
  again.". The session goes on: its next run finds no engine and runs the initialization
  again, storing the engine if it succeeds.
\<close>

theorem init_failure_aborts_run:
  assumes "session_engine s = None" and "initialize_chatbot w s = (s', out, Inl e)"
  shows "main w chat_input s =
           (s',
            page_header @
            [Spinner ''Initializing system...'',
             LogError (''Error initializing chatbot: '' @ exc_str e),
             StError (''System Error: '' @ exc_str e),
             StWarning ''Please check your configuration and try again.''])
       \<and> session_engine s' = None
       \<and> chat_history s' = chat_history s
       \<and> engine_queries (snd (main w chat_input s)) = []
       \<and> init_system w' s' =
           (case initialize_chatbot w' s' of
              (s'', out', Inl e') \<Rightarrow> (s'', Spinner ''Initializing system...'' # out', Some e')
            | (s'', out', Inr index) \<Rightarrow>
                (s''\<lparr>session_engine := Some (create_query_engine index)\<rparr>,
                 Spinner ''Initializing system...'' # out' @
                   [Success ''System initialized successfully!''],
                 None))"
proof -
  have out: "out = [LogError (''Error initializing chatbot: '' @ exc_str e)]"
    using assms(2) by (rule initialize_chatbot_raises_log)
  have i: "init_system w s = (s', Spinner ''Initializing system...'' # out, Some e)"
    using assms by (simp add: init_system_absent)
  have m: "main w chat_input s =
           (s',
            page_header @
            [Spinner ''Initializing system...'',
             LogError (''Error initializing chatbot: '' @ exc_str e),
             StError (''System Error: '' @ exc_str e),
             StWarning ''Please check your configuration and try again.''])"
    using i by (simp add: main_init_failed out)
  have e: "session_engine s' = None"
    using assms initialize_chatbot_engine by fastforce
  have h: "chat_history s' = chat_history s"
    using assms(2) by (rule initialize_chatbot_history)
  have q: "engine_queries (snd (main w chat_input s)) = []"
    by (simp add: m engine_queries_append page_header_def)
  from m e h q init_system_absent [OF e, of w'] show ?thesis by simp
qed

theorem init_failure_aborts_run_witness:
  "session_engine fresh_session = None \<and>
   initialize_chatbot failing_init_world fresh_session =
     (fresh_session\<lparr>settings_llm := Some (Gemini ''g'' ''models/gemini-1.5-pro-002''),
        settings_embed_model := Some (GeminiEmbedding ''models/embedding-001'')\<rparr>,
      [LogError ''Error initializing chatbot: invalid key''],
      Inl (PyException ''PineconeException'' ''invalid key'')) \<and>
   main failing_init_world (Some ''q'') fresh_session =
     (fresh_session\<lparr>settings_llm := Some (Gemini ''g'' ''models/gemini-1.5-pro-002''),
        settings_embed_model := Some (GeminiEmbedding ''models/embedding-001'')\<rparr>,
      page_header @
      [Spinner ''Initializing system...'',
       LogError ''Error initializing chatbot: invalid key'',
       StError ''System Error: invalid key'',
       StWarning ''Please check your configuration and try again.''])"
proof -
  have h1: "session_engine fresh_session = None"
    by (simp add: fresh_session_def)
  have h2: "initialize_chatbot failing_init_world fresh_session =
     (fresh_session\<lparr>settings_llm := Some (Gemini ''g'' ''models/gemini-1.5-pro-002''),
        settings_embed_model := Some (GeminiEmbedding ''models/embedding-001'')\<rparr>,
      [LogError ''Error initializing chatbot: invalid key''],
      Inl (PyException ''PineconeException'' ''invalid key''))"
    by (simp add: initialize_chatbot_def initialize_chatbot_body_def connect_index_def
        environ_get_def load_dotenv_def construct_def failing_init_world_def ok_world_def)
  show ?thesis
    using init_failure_aborts_run [OF h1 h2, of "Some ''q''"] h1 h2 by simp
qed

text \<open>
  C7 as stated fails: a failed initialization is not fatal to the session. In a session
  whose first run fails in the constructor of the vector-store client, the second run
  initializes again and stores the engine, and the third run answers a query.
\<close>

theorem init_failure_fatal_counterexample:
  "snd (snd (init_system failing_init_world fresh_session)) =
     Some (PyException ''PineconeException'' ''invalid key'') \<and>
   session_engine (fst (run_session [(failing_init_world, None)] fresh_session)) = None \<and>
   session_engine (fst (run_session
     [(failing_init_world, None), (ok_world ''A'', None)] fresh_session)) =
     session_engine ready_session \<and>
   session_engine ready_session \<noteq> None \<and>
   chat_history (fst (run_session
     [(failing_init_world, None), (ok_world ''A'', None), (ok_world ''A'', Some ''q'')]
     fresh_session)) = [user_turn ''q'', assistant_turn ''A'']"
  by (simp add: run_defs failing_init_world_def)

text \<open>
  C5. In a session that started fresh, a run whose initialization passed does this with
  the chat input: nothing when there is no input or the input is empty, so no remote call
  is made for it; for a non-empty query the \<open>query\<close> call on the engine, which embeds the
  query, then searches with k = 7, then sends the rendered prompt to the language model,
  and then the answer is displayed. A step that raises ends the query with the error
  message and the later steps are not made.
\<close>

theorem pipeline_step_order:
  assumes "s = fst (run_session steps fresh_session)"
    and "init_system w s = (s1, out1, None)" and "session_engine s1 = Some qe"
    and "query_method w = answer svc"
  shows "snd (main w chat_input s) =
     page_header @ out1 @ render_history (chat_history s1) @
     (case chat_input of
        None \<Rightarrow> []
      | Some query \<Rightarrow>
          if query = [] then []
          else
            [ChatUserWrite query, Spinner ''Analyzing your question...'', EngineQuery qe query,
             Remote (EmbedCall query)] @
            (case embed svc query of
               Inl e \<Rightarrow>
                 [StError (''Error processing question: '' @ exc_str e),
                  StInfo ''Please try rephrasing your question.'']
             | Inr v \<Rightarrow>
                 Remote (SearchCall v 7) #
                 (case search svc v 7 of
                    Inl e \<Rightarrow>
                      [StError (''Error processing question: '' @ exc_str e),
                       StInfo ''Please try rephrasing your question.'']
                  | Inr chunks \<Rightarrow>
                      Remote (LLMCall (render_prompt DEFAULT_TEXT_QA_PROMPT query chunks)) #
                      (case language_model svc
                              (render_prompt DEFAULT_TEXT_QA_PROMPT query chunks) of
                         Inl e \<Rightarrow>
                           [StError (''Error processing question: '' @ exc_str e),
                            StInfo ''Please try rephrasing your question.'']
                       | Inr text \<Rightarrow> [ChatAssistantMarkdown text]))))
       \<and> remote_calls (snd (main w None s)) = []
       \<and> remote_calls (snd (main w (Some []) s)) = []"
proof -
  have idle: "remote_calls (snd (main w None s)) = [] \<and>
              remote_calls (snd (main w (Some []) s)) = []"
    using assms(2)
    by (simp add: main_no_query remote_calls_append remote_calls_page_header
        remote_calls_render init_system_quiet)
  have "engine_inv s"
    unfolding assms(1) using fresh_session_inv by (rule run_session_inv)
  with assms(2) have "engine_inv s1"
    by (rule init_system_inv)
  then have k: "similarity_top_k qe = 7" and t: "text_qa_template qe = DEFAULT_TEXT_QA_PROMPT"
    using assms(3) engine_inv_fields by blast+
  show ?thesis
  proof (cases chat_input)
    case None
    with assms(2) idle show ?thesis by (simp add: main_no_query)
  next
    case (Some query)
    show ?thesis
    proof (cases "query = []")
      case True
      with Some assms(2) idle show ?thesis by (simp add: main_no_query)
    next
      case False
      with Some assms(2) idle show ?thesis
        by (simp add: main_query process_query_answer [OF assms(3,4) k t])
    qed
  qed
qed

theorem pipeline_step_order_witness:
  "ready_session = fst (run_session [(ok_world ''A'', None)] fresh_session) \<and>
   init_system (pipeline_world example_services) ready_session = (ready_session, [], None) \<and>
   session_engine ready_session = Some (the (session_engine ready_session)) \<and>
   query_method (pipeline_world example_services) = answer example_services \<and>
   snd (main (pipeline_world example_services) (Some ''q'') ready_session) =
     page_header @
     [ChatUserWrite ''q'', Spinner ''Analyzing your question...'',
      EngineQuery (the (session_engine ready_session)) ''q'',
      Remote (EmbedCall ''q''),
      Remote (SearchCall [1, 0] 7),
      Remote (LLMCall (''Context information is below.\<newline>---------------------\<newline>Article 1\<newline>---------------------\<newline>Given the context information and not prior knowledge, Only answer questions that you can answer based on the context. Answer the query.\<newline>Query: q\<newline>Answer: '')),
      ChatAssistantMarkdown ''legislature'']"
proof -
  let ?w = "pipeline_world example_services"
  let ?qe = "the (session_engine ready_session)"
  have h1: "ready_session = fst (run_session [(ok_world ''A'', None)] fresh_session)"
    by (simp add: run_session_Cons init_ok_world main_no_query [OF init_ok_world]
        del: run_session.simps(2))
  have h2: "init_system ?w ready_session = (ready_session, [], None)"
    by (rule init_ready_session)
  have h3: "session_engine ready_session = Some ?qe"
    by (simp add: ready_session_def)
  have h4: "query_method ?w = answer example_services"
    by (simp add: pipeline_world_def)
  have h5: "chat_history ready_session = []"
    by (simp add: ready_session_def)
  show ?thesis
    using pipeline_step_order [OF h1 h2 h3 h4, of "Some ''q''"] h1 h2 h3 h4
    by (simp add: example_services_def render_default_prompt h5 render_history_def)
qed

text \<open>
  C6. \<open>create_query_engine\<close> gives every engine the one template
  \<open>DEFAULT_TEXT_QA_PROMPT\<close>, and from a fresh session every \<open>query\<close> call is on an engine
  with that template. Its text contains the placeholders \<open>{context_str}\<close> and
  \<open>{query_str}\<close> and the instruction to answer from the context and not from prior
  knowledge. The prompt a query sends to the language model is that text with the
  retrieved context in place of \<open>{context_str}\<close> and the query in place of \<open>{query_str}\<close>.
\<close>

theorem prompt_template_fixed:
  "text_qa_template (create_query_engine index) = DEFAULT_TEXT_QA_PROMPT \<and>
   map (text_qa_template \<circ> fst) (engine_queries (snd (run_session steps fresh_session))) =
     replicate (length (engine_queries (snd (run_session steps fresh_session))))
       DEFAULT_TEXT_QA_PROMPT \<and>
   sublist ''{context_str}'' (template DEFAULT_TEXT_QA_PROMPT) \<and>
   sublist ''{query_str}'' (template DEFAULT_TEXT_QA_PROMPT) \<and>
   sublist ''Given the context information and not prior knowledge, Only answer questions that you can answer based on the context. ''
     (template DEFAULT_TEXT_QA_PROMPT) \<and>
   llm_prompts (fst (answer svc (create_query_engine index) query)) =
     (case embed svc query of
        Inl e \<Rightarrow> []
      | Inr v \<Rightarrow>
          (case search svc v 7 of
             Inl e \<Rightarrow> []
           | Inr chunks \<Rightarrow>
               [''Context information is below.\<newline>---------------------\<newline>'' @
                concat (map chunk_text chunks) @
                ''\<newline>---------------------\<newline>Given the context information and not prior knowledge, Only answer questions that you can answer based on the context. Answer the query.\<newline>Query: '' @
                query @ ''\<newline>Answer: '']))"
proof -
  have a: "text_qa_template (create_query_engine index) = DEFAULT_TEXT_QA_PROMPT"
    by (simp add: create_query_engine_def)
  have "list_all (\<lambda>(qe, query). qe = create_query_engine (engine_index qe))
     (engine_queries (snd (run_session steps fresh_session)))"
    using fresh_session_inv by (rule run_session_queries_configured)
  then have b: "map (text_qa_template \<circ> fst) (engine_queries (snd (run_session steps fresh_session))) =
     replicate (length (engine_queries (snd (run_session steps fresh_session))))
       DEFAULT_TEXT_QA_PROMPT"
    by (rule configured_template)
  have c: "sublist ''{context_str}'' (template DEFAULT_TEXT_QA_PROMPT) \<and>
           sublist ''{query_str}'' (template DEFAULT_TEXT_QA_PROMPT)"
    using template_placeholders by (simp add: DEFAULT_TEXT_QA_PROMPT_def)
  have d: "sublist ''Given the context information and not prior knowledge, Only answer questions that you can answer based on the context. ''
     (template DEFAULT_TEXT_QA_PROMPT)"
    using template_instruction by (simp add: DEFAULT_TEXT_QA_PROMPT_def)
  have k: "similarity_top_k (create_query_engine index) = 7"
    by (simp add: create_query_engine_def)
  have e: "llm_prompts (fst (answer svc (create_query_engine index) query)) =
     (case embed svc query of
        Inl e \<Rightarrow> []
      | Inr v \<Rightarrow>
          (case search svc v 7 of
             Inl e \<Rightarrow> []
           | Inr chunks \<Rightarrow> [render_prompt DEFAULT_TEXT_QA_PROMPT query chunks]))"
    by (simp only: llm_prompts_answer a k)
  from a b c d show ?thesis
    by (simp only: e render_default_prompt simp_thms)
qed

theorem prompt_template_fixed_witness:
  "llm_prompts (fst (answer example_services (the (session_engine ready_session)) ''q'')) =
     [''Context information is below.\<newline>---------------------\<newline>Article 1\<newline>---------------------\<newline>Given the context information and not prior knowledge, Only answer questions that you can answer based on the context. Answer the query.\<newline>Query: q\<newline>Answer: '']"
  using prompt_template_fixed
    [of "VectorStoreIndex (PineconeVectorStore (PineconeIndex (Pinecone ''p'') ''constitution''))"
        "[]" example_services "''q''"]
  by (simp add: example_services_def ready_session_def)

text \<open>
  C3. The chat history keeps insertion order. In an initialized session whose history
  holds the turns of the queries answered before, any runs of the script leave as history
  exactly those turns followed by the turns of the queries answered in these runs, a user
  turn and an assistant turn for each, in the order of the runs, none changed, dropped or
  moved; and the next run of the script, reading the history back in lines 89-96, displays
  exactly these turns in that order.
\<close>

theorem history_insertion_order:
  assumes "session_engine s = Some qe" and "chat_history s = turns_of before"
  shows "chat_history (fst (run_session steps s)) =
           turns_of (before @ answered_queries qe steps)
       \<and> length (chat_history (fst (run_session steps s))) =
           2 * length before + 2 * length (answered_queries qe steps)
       \<and> main w None (fst (run_session steps s)) =
           (fst (run_session steps s),
            page_header @ display_of (before @ answered_queries qe steps))"
proof -
  let ?s' = "fst (run_session steps s)"
  have r: "chat_history ?s' = chat_history s @ turns_of (answered_queries qe steps)"
    and e: "session_engine ?s' = Some qe"
    using run_session_records_answers [OF assms(1), of steps] by simp_all
  have h: "chat_history ?s' = turns_of (before @ answered_queries qe steps)"
    by (simp add: r assms(2) turns_of_append)
  have len: "length (turns_of pairs) = 2 * length pairs" for pairs
    by (induction pairs rule: turns_of.induct) simp_all
  have i: "init_system w ?s' = (?s', [], None)"
    using e by (rule init_system_ready)
  have m: "main w None ?s' = (?s', page_header @ render_history (chat_history ?s'))"
    using main_no_query [OF i, of None] by simp
  from h m show ?thesis
    by (simp add: render_turns_of len)
qed

theorem history_insertion_order_witness:
  "session_engine ready_session = Some (the (session_engine ready_session)) \<and>
   chat_history ready_session = turns_of [] \<and>
   answered_queries (the (session_engine ready_session))
     [(ok_world ''A'', Some ''q''), (failing_query_world, Some ''r''),
      (ok_world ''B'', Some ''s'')] = [(''q'', ''A''), (''s'', ''B'')] \<and>
   chat_history (fst (run_session
     [(ok_world ''A'', Some ''q''), (failing_query_world, Some ''r''),
      (ok_world ''B'', Some ''s'')] ready_session)) =
     [\<lparr>role = ''user'', content = ''q''\<rparr>, \<lparr>role = ''assistant'', content = ''A''\<rparr>,
      \<lparr>role = ''user'', content = ''s''\<rparr>, \<lparr>role = ''assistant'', content = ''B''\<rparr>] \<and>
   snd (main (ok_world ''C'') None (fst (run_session
     [(ok_world ''A'', Some ''q''), (failing_query_world, Some ''r''),
      (ok_world ''B'', Some ''s'')] ready_session))) =
     page_header @
     [ChatUserWrite ''q'', ChatAssistantMarkdown ''A'',
      ChatUserWrite ''s'', ChatAssistantMarkdown ''B'']"
proof -
  let ?qe = "the (session_engine ready_session)"
  let ?steps = "[(ok_world ''A'', Some ''q''), (failing_query_world, Some ''r''),
                 (ok_world ''B'', Some ''s'')]"
  have h1: "session_engine ready_session = Some ?qe"
    by (simp add: ready_session_def)
  have h2: "chat_history ready_session = turns_of []"
    by (simp add: ready_session_def)
  have a: "answered_queries ?qe ?steps = [(''q'', ''A''), (''s'', ''B'')]"
    by (simp add: ok_world_def failing_query_world_def get_response_text_def getattr_def
        response_object_def)
  show ?thesis
    using history_insertion_order [OF h1 h2, of ?steps "ok_world ''C''", unfolded a] h1 h2 a
    by (simp del: run_session.simps answered_queries.simps)
qed

end
